theory Spec2Isabelle
  imports Complex_Main "HOL-Library.AList"
begin

section \<open>Strings\<close>

text \<open>
  Strings are byte lists. The three string operations \<^verbatim>\<open>process_tickers\<close> uses are
  modelled on ASCII input: \<^verbatim>\<open>str.split(sep)\<close>, \<^verbatim>\<open>str.strip()\<close> and \<^verbatim>\<open>str.upper()\<close>.
\<close>

fun split_on :: "char \<Rightarrow> string \<Rightarrow> string list" where
  "split_on sep [] = [[]]"
| "split_on sep (c # cs) =
     (if c = sep then [] # split_on sep cs
      else (case split_on sep cs of
              [] \<Rightarrow> [[c]]
            | p # ps \<Rightarrow> (c # p) # ps))"

definition is_space :: "char \<Rightarrow> bool" where
  "is_space c = (c \<in> set [CHR 0x09, CHR 0x0A, CHR 0x0B, CHR 0x0C, CHR 0x0D,
                           CHR 0x1C, CHR 0x1D, CHR 0x1E, CHR 0x1F, CHR 0x20])"

definition strip :: "string \<Rightarrow> string" where
  "strip s = rev (dropWhile is_space (rev (dropWhile is_space s)))"

definition upper_char :: "char \<Rightarrow> char" where
  "upper_char c =
     (case map_of (zip ''abcdefghijklmnopqrstuvwxyz'' ''ABCDEFGHIJKLMNOPQRSTUVWXYZ'') c of
        None \<Rightarrow> c
      | Some u \<Rightarrow> u)"

definition upper :: "string \<Rightarrow> string" where
  "upper s = map upper_char s"

section \<open>Calendar dates\<close>

text \<open>
  \<^verbatim>\<open>fetch_data\<close> uses four operations of Python's \<^verbatim>\<open>datetime\<close> module:
  \<^verbatim>\<open>datetime.strptime(s, "%Y-%m-%d")\<close>, the subtraction of two datetimes followed by
  \<^verbatim>\<open>.days\<close>, \<^verbatim>\<open>end - timedelta(days=n)\<close> and \<^verbatim>\<open>strftime("%Y-%m-%d")\<close>. They are library
  code; the definitions below follow the library's proleptic Gregorian ordinal
  (day 1 is 0001-01-01). A parsed date has no time of day, so a datetime is its
  year, month and day.
\<close>

datatype datetime = Datetime (year: int) (month: int) (day: int)

definition is_leap :: "int \<Rightarrow> bool" where
  "is_leap y = (y mod 4 = 0 \<and> (y mod 100 \<noteq> 0 \<or> y mod 400 = 0))"

definition DAYS_IN_MONTH :: "int list" where
  "DAYS_IN_MONTH = [-1, 31, 28, 31, 30, 31, 30, 31, 31, 30, 31, 30, 31]"

definition DAYS_BEFORE_MONTH :: "int list" where
  "DAYS_BEFORE_MONTH = [-1, 0, 31, 59, 90, 120, 151, 181, 212, 243, 273, 304, 334]"

definition days_before_year :: "int \<Rightarrow> int" where
  "days_before_year y = (y - 1) * 365 + (y - 1) div 4 - (y - 1) div 100 + (y - 1) div 400"

definition days_in_month :: "int \<Rightarrow> int \<Rightarrow> int" where
  "days_in_month y m = (if m = 2 \<and> is_leap y then 29 else DAYS_IN_MONTH ! nat m)"

definition days_before_month :: "int \<Rightarrow> int \<Rightarrow> int" where
  "days_before_month y m =
     DAYS_BEFORE_MONTH ! nat m + (if m > 2 \<and> is_leap y then 1 else 0)"

definition toordinal :: "datetime \<Rightarrow> int" where
  "toordinal d = days_before_year (year d) + days_before_month (year d) (month d) + day d"

definition fromordinal :: "int \<Rightarrow> datetime" where
  "fromordinal n0 =
     (let n = n0 - 1;
          n400 = n div 146097; n = n mod 146097;
          n100 = n div 36524; n = n mod 36524;
          n4 = n div 1461; n = n mod 1461;
          n1 = n div 365; n = n mod 365;
          y = n400 * 400 + 1 + n100 * 100 + n4 * 4 + n1
      in if n1 = 4 \<or> n100 = 4 then Datetime (y - 1) 12 31
         else
           (let leapyear = (n1 = 3 \<and> (n4 \<noteq> 24 \<or> n100 = 3));
                m = (n + 50) div 32;
                preceding = DAYS_BEFORE_MONTH ! nat m + (if m > 2 \<and> leapyear then 1 else 0)
            in if preceding > n
               then (let m' = m - 1;
                         preceding' = preceding
                           - (DAYS_IN_MONTH ! nat m' + (if m' = 2 \<and> leapyear then 1 else 0))
                     in Datetime y m' (n - preceding' + 1))
               else Datetime y m (n - preceding + 1)))"

definition is_digit :: "char \<Rightarrow> bool" where
  "is_digit c = (c \<in> set ''0123456789'')"

definition is_nonzero_digit :: "char \<Rightarrow> bool" where
  "is_nonzero_digit c = (c \<in> set ''123456789'')"

definition int_of_digits :: "string \<Rightarrow> int" where
  "int_of_digits s =
     foldl (\<lambda>a c. 10 * a + int (of_char c - (48::nat))) 0 (filter is_digit s)"

text \<open>
  The fields of the format \<^verbatim>\<open>%Y-%m-%d\<close>: four digits; a month \<^verbatim>\<open>1[0-2]|0[1-9]|[1-9]\<close>;
  a day \<^verbatim>\<open>3[0-1]|[1-2]\d|0[1-9]|[1-9]| [1-9]\<close>. Nothing may follow the day.
\<close>

definition year_field :: "string \<Rightarrow> bool" where
  "year_field s = (length s = 4 \<and> list_all is_digit s)"

definition month_field :: "string \<Rightarrow> bool" where
  "month_field s =
     (case s of
        [a] \<Rightarrow> is_nonzero_digit a
      | [a, b] \<Rightarrow> (a = CHR ''1'' \<and> b \<in> set ''012'') \<or> (a = CHR ''0'' \<and> is_nonzero_digit b)
      | _ \<Rightarrow> False)"

definition day_field :: "string \<Rightarrow> bool" where
  "day_field s =
     (case s of
        [a] \<Rightarrow> is_nonzero_digit a
      | [a, b] \<Rightarrow> (a = CHR ''3'' \<and> b \<in> set ''01'') \<or> (a \<in> set ''12'' \<and> is_digit b)
                 \<or> (a = CHR ''0'' \<and> is_nonzero_digit b) \<or> (a = CHR '' '' \<and> is_nonzero_digit b)
      | _ \<Rightarrow> False)"

text \<open>\<^verbatim>\<open>strptime\<close> raises ValueError (here \<open>None\<close>) on a string that does not match the
  format, and on a date that does not exist (year 0, a day beyond the month's end). The
  model is of ASCII strings: a digit is one of the ten ASCII digits.\<close>

definition strptime :: "string \<Rightarrow> datetime option" where
  "strptime s =
     (case split_on CHR ''-'' s of
        [ys, ms, ds] \<Rightarrow>
          if year_field ys \<and> month_field ms \<and> day_field ds
          then (let y = int_of_digits ys; m = int_of_digits ms; d = int_of_digits ds
                in if 1 \<le> y \<and> d \<le> days_in_month y m then Some (Datetime y m d) else None)
          else None
      | _ \<Rightarrow> None)"

definition days_between :: "datetime \<Rightarrow> datetime \<Rightarrow> int" where
  "days_between end_dt start_dt = toordinal end_dt - toordinal start_dt"

text \<open>\<^verbatim>\<open>end - timedelta(days=n)\<close> raises OverflowError (here \<open>None\<close>) outside the years
  1 to 9999.\<close>

definition minus_days :: "datetime \<Rightarrow> int \<Rightarrow> datetime option" where
  "minus_days d n =
     (let k = toordinal d - n
      in if 1 \<le> k \<and> k \<le> 3652059 then Some (fromordinal k) else None)"

definition digit_char :: "int \<Rightarrow> char" where
  "digit_char n = ''0123456789'' ! nat n"

text \<open>\<^verbatim>\<open>strftime("%Y-%m-%d")\<close> for years from 1000 on, where every platform prints four
  digits of the year.\<close>

definition strftime :: "datetime \<Rightarrow> string" where
  "strftime d =
     [digit_char (year d div 1000), digit_char (year d div 100 mod 10),
      digit_char (year d div 10 mod 10), digit_char (year d mod 10)]
     @ ''-'' @ [digit_char (month d div 10), digit_char (month d mod 10)]
     @ ''-'' @ [digit_char (day d div 10), digit_char (day d mod 10)]"

section \<open>The fetcher, its collaborators and the world\<close>

text \<open>
  The provider (\<^verbatim>\<open>yfinance\<close>) and the file system are collaborators outside the
  repository; they are parameters of the model. An \<open>Inl msg\<close> or \<open>Some msg\<close> result
  stands for a raised \<^verbatim>\<open>Exception\<close> whose \<^verbatim>\<open>str\<close> is \<open>msg\<close>. The provider is a function
  of the ticker and the query; \<open>strptime_msg\<close> is the text of the ValueError that
  \<^verbatim>\<open>strptime\<close> raises on a given string. The row type \<open>'r\<close> of a data frame is left
  open: the fetcher never looks inside a row, and a frame is \<^verbatim>\<open>empty\<close> when it is \<open>[]\<close>.
\<close>

datatype query =
    Range string string string  \<comment> \<open>\<^verbatim>\<open>history(start=, end=, interval=)\<close>\<close>
  | Period string string        \<comment> \<open>\<^verbatim>\<open>history(period=, interval=)\<close>\<close>

type_synonym path = "string list"

record 'r env =
  new_ticker :: "string \<Rightarrow> string option"
  history :: "string \<Rightarrow> query \<Rightarrow> string + 'r list"
  mkdir :: "path \<Rightarrow> string option"
  to_csv :: "path \<Rightarrow> 'r list \<Rightarrow> string option"
  strptime_msg :: "string \<Rightarrow> string"

text \<open>
  The world is what the code reads and writes besides its own object: the clock
  (\<^verbatim>\<open>time.time()\<close>, advanced by \<^verbatim>\<open>time.sleep\<close>; time is a rational number and a
  statement takes no time), the durations slept, the lines printed, the provider
  queries made and the files written, each in order.
\<close>

record 'r world =
  now :: rat
  slept :: "rat list"
  stdout :: "string list"
  calls :: "(string \<times> query) list"
  files :: "(path \<times> 'r list) list"

record fetcher =
  last_request_time :: "rat option"
  min_request_interval :: rat

datatype error = ValueError string

definition supported_intervals :: "(string \<times> string) list" where
  "supported_intervals =
     [(''1m'', ''7d''), (''2m'', ''60d''), (''5m'', ''60d''), (''15m'', ''60d''),
      (''30m'', ''60d''), (''60m'', ''60d''), (''90m'', ''60d''), (''1h'', ''60d''),
      (''1d'', ''max''), (''5d'', ''max''), (''1wk'', ''max''), (''1mo'', ''max''),
      (''3mo'', ''max'')]"

definition init :: fetcher where
  "init = \<lparr>last_request_time = None, min_request_interval = 1 / 2\<rparr>"

definition print :: "string \<Rightarrow> 'r world \<Rightarrow> 'r world" where
  "print line w = w\<lparr>stdout := stdout w @ [line]\<rparr>"

definition sleep :: "rat \<Rightarrow> 'r world \<Rightarrow> 'r world" where
  "sleep d w = w\<lparr>now := now w + d, slept := slept w @ [d]\<rparr>"

definition rate_limit :: "fetcher \<Rightarrow> 'r world \<Rightarrow> fetcher \<times> 'r world" where
  "rate_limit f w =
     (let w1 = (case last_request_time f of
                  None \<Rightarrow> w
                | Some last_time \<Rightarrow>
                    (let elapsed = now w - last_time
                     in if elapsed < min_request_interval f
                        then sleep (min_request_interval f - elapsed) w
                        else w))
      in (f\<lparr>last_request_time := Some (now w1)\<rparr>, w1))"

text \<open>\<^verbatim>\<open>start_date and end_date\<close>: both given and neither the empty string.\<close>

definition both_dates :: "string option \<Rightarrow> string option \<Rightarrow> (string \<times> string) option" where
  "both_dates start_date end_date =
     (case start_date of
        None \<Rightarrow> None
      | Some s \<Rightarrow>
          (case end_date of
             None \<Rightarrow> None
           | Some e \<Rightarrow> if s \<noteq> [] \<and> e \<noteq> [] then Some (s, e) else None))"

text \<open>The list of line 63, which the source's comment calls minute-level data.\<close>

definition minute_level :: "string list" where
  "minute_level = [''1m'', ''2m'', ''5m'', ''15m'', ''30m'', ''60m'', ''1h'']"

definition call_history ::
  "'r env \<Rightarrow> 'r world \<Rightarrow> string \<Rightarrow> query \<Rightarrow> (string + 'r list) \<times> 'r world" where
  "call_history env w ticker q = (history env ticker q, w\<lparr>calls := calls w @ [(ticker, q)]\<rparr>)"

text \<open>
  The \<^verbatim>\<open>if\<close> statement of lines 61 to 83, which assigns \<^verbatim>\<open>data\<close>: \<open>Inl msg\<close> is an
  exception on its way to the handler of line 90.
\<close>

definition request_history ::
  "'r env \<Rightarrow> 'r world \<Rightarrow> string \<Rightarrow> string \<Rightarrow> string option \<Rightarrow> string option
     \<Rightarrow> (string + 'r list) \<times> 'r world" where
  "request_history env w ticker interval start_date end_date =
     (case both_dates start_date end_date of
        Some (sd, ed) \<Rightarrow>
          if interval \<in> set minute_level
          then
            (case strptime sd of
               None \<Rightarrow> (Inl (strptime_msg env sd), w)
             | Some start_dt \<Rightarrow>
                 (case strptime ed of
                    None \<Rightarrow> (Inl (strptime_msg env ed), w)
                  | Some end_dt \<Rightarrow>
                      (let max_days = (if interval = ''1m'' then 7 else 60)
                       in if days_between end_dt start_dt > max_days
                          then
                            (case minus_days end_dt max_days of
                               None \<Rightarrow> (Inl ''date value out of range'', w)
                             | Some d \<Rightarrow>
                                 (let sd' = strftime d;
                                      w1 = print (''Note: Adjusted start date to '' @ sd'
                                             @ '' due to '' @ interval
                                             @ '' interval limitations'') w
                                  in call_history env w1 ticker (Range sd' ed interval)))
                          else call_history env w ticker (Range sd ed interval))))
          else call_history env w ticker (Range sd ed interval)
      | None \<Rightarrow>
          (case map_of supported_intervals interval of
             None \<Rightarrow> (Inl ([CHR 0x27] @ interval @ [CHR 0x27]), w)
           | Some period \<Rightarrow> call_history env w ticker (Period period interval)))"

text \<open>
  The body of the \<^verbatim>\<open>try\<close> block of \<^verbatim>\<open>fetch_data\<close> (lines 58 to 89): \<open>Inl msg\<close> is an
  exception on its way to the handler, \<open>Inr None\<close> the return on an empty frame.
\<close>

definition try_fetch ::
  "'r env \<Rightarrow> 'r world \<Rightarrow> string \<Rightarrow> string \<Rightarrow> string option \<Rightarrow> string option
     \<Rightarrow> (string + 'r list option) \<times> 'r world" where
  "try_fetch env w ticker interval start_date end_date =
     (case new_ticker env ticker of
        Some msg \<Rightarrow> (Inl msg, w)
      | None \<Rightarrow>
          (case request_history env w ticker interval start_date end_date of
             (Inl msg, w') \<Rightarrow> (Inl msg, w')
           | (Inr data, w') \<Rightarrow>
               if data = []
               then (Inr None, print (''Warning: No data returned for '' @ ticker) w')
               else (Inr (Some data), w')))"

text \<open>
  \<^verbatim>\<open>fetch_data\<close>: \<open>Inl\<close> is an exception that leaves the function, \<open>Inr None\<close> the
  return of \<^verbatim>\<open>None\<close>, \<open>Inr (Some data)\<close> the return of a frame.
\<close>

definition fetch_data ::
  "'r env \<Rightarrow> fetcher \<Rightarrow> 'r world \<Rightarrow> string \<Rightarrow> string \<Rightarrow> string option \<Rightarrow> string option
     \<Rightarrow> (error + 'r list option) \<times> fetcher \<times> 'r world" where
  "fetch_data env f w ticker interval start_date end_date =
     (if interval \<notin> set (map fst supported_intervals)
      then (Inl (ValueError (''Unsupported interval: '' @ interval)), f, w)
      else
        (case rate_limit f w of
           (f1, w1) \<Rightarrow>
             (case try_fetch env w1 ticker interval start_date end_date of
                (Inr r, w2) \<Rightarrow> (Inr r, f1, w2)
              | (Inl msg, w2) \<Rightarrow>
                  (Inr None, f1,
                   print (''Error fetching data for '' @ ticker @ '': '' @ msg) w2))))"

record paths =
  ticker_dir :: path
  data_path :: path

text \<open>\<^verbatim>\<open>save_data\<close>: \<open>Inl msg\<close> is the exception of \<^verbatim>\<open>mkdir\<close> or \<^verbatim>\<open>to_csv\<close>.\<close>

definition save_data ::
  "'r env \<Rightarrow> 'r world \<Rightarrow> 'r list \<Rightarrow> string \<Rightarrow> path \<Rightarrow> string \<Rightarrow> (string + paths) \<times> 'r world" where
  "save_data env w data ticker base_dir interval =
     (let tdir = base_dir @ [ticker];
          data_dir = tdir @ [''data'']
      in case mkdir env data_dir of
           Some msg \<Rightarrow> (Inl msg, w)
         | None \<Rightarrow>
             (let file_name = ticker @ ''_'' @ interval @ ''.csv'';
                  dpath = data_dir @ [file_name]
              in case to_csv env dpath data of
                   Some msg \<Rightarrow> (Inl msg, w)
                 | None \<Rightarrow>
                     (Inr \<lparr>ticker_dir = tdir, data_path = dpath\<rparr>,
                      w\<lparr>files := files w @ [(dpath, data)]\<rparr>)))"

definition process_tickers :: "string \<Rightarrow> string list" where
  "process_tickers ticker_input =
     map (\<lambda>t. upper (strip t)) (filter (\<lambda>t. strip t \<noteq> []) (split_on CHR '','' ticker_input))"

text \<open>An entry of the results dictionary: \<^verbatim>\<open>status\<close> is the constructor.\<close>

datatype 'r entry =
    Success paths "'r list"
  | Error string

text \<open>
  The results dictionary keeps insertion order, and an assignment to a key it has
  replaces the value in place: \<open>AList.update\<close>.
\<close>

type_synonym 'r results = "(string \<times> 'r entry) list"

text \<open>One turn of the loop of \<^verbatim>\<open>fetch_and_save_multiple\<close> (lines 144 to 165): the entry
  for the ticker, or the exception \<^verbatim>\<open>fetch_data\<close> raised.\<close>

definition process_one ::
  "'r env \<Rightarrow> fetcher \<Rightarrow> 'r world \<Rightarrow> path \<Rightarrow> string \<Rightarrow> string option \<Rightarrow> string option \<Rightarrow> string
     \<Rightarrow> (error + 'r entry) \<times> fetcher \<times> 'r world" where
  "process_one env f w base_dir interval start_date end_date ticker =
     (case fetch_data env f (print (''Fetching data for '' @ ticker @ ''...'') w)
             ticker interval start_date end_date of
        (Inl e, f', w') \<Rightarrow> (Inl e, f', w')
      | (Inr (Some data), f', w') \<Rightarrow>
          (case save_data env w' data ticker base_dir interval of
             (Inr ps, w'') \<Rightarrow>
               (Inr (Success ps data), f',
                print (''Successfully saved data for '' @ ticker) w'')
           | (Inl msg, w'') \<Rightarrow> (Inr (Error (''Error saving data: '' @ msg)), f', w''))
      | (Inr None, f', w') \<Rightarrow> (Inr (Error ''Failed to fetch data''), f', w'))"

fun batch_loop ::
  "'r env \<Rightarrow> path \<Rightarrow> string \<Rightarrow> string option \<Rightarrow> string option \<Rightarrow> string list
     \<Rightarrow> fetcher \<Rightarrow> 'r world \<Rightarrow> 'r results \<Rightarrow> (error + 'r results) \<times> fetcher \<times> 'r world" where
  "batch_loop env base_dir interval start_date end_date [] f w results = (Inr results, f, w)"
| "batch_loop env base_dir interval start_date end_date (ticker # tickers) f w results =
     (case process_one env f w base_dir interval start_date end_date ticker of
        (Inl e, f', w') \<Rightarrow> (Inl e, f', w')
      | (Inr entry, f', w') \<Rightarrow>
          batch_loop env base_dir interval start_date end_date tickers f' w'
            (AList.update ticker entry results))"

definition fetch_and_save_multiple ::
  "'r env \<Rightarrow> fetcher \<Rightarrow> 'r world \<Rightarrow> string \<Rightarrow> path \<Rightarrow> string \<Rightarrow> string option \<Rightarrow> string option
     \<Rightarrow> (error + 'r results) \<times> fetcher \<times> 'r world" where
  "fetch_and_save_multiple env f w ticker_input base_dir interval start_date end_date =
     batch_loop env base_dir interval start_date end_date (process_tickers ticker_input) f w []"

section \<open>Notions the properties are stated with\<close>

text \<open>A fresh world: nothing slept, printed, queried or written yet.\<close>

definition world0 :: "'r world" where
  "world0 = \<lparr>now = 0, slept = [], stdout = [], calls = [], files = []\<rparr>"

text \<open>Time that passes between two statements: the clock moves on by \<open>d\<close>.\<close>

definition tick :: "rat \<Rightarrow> 'r world \<Rightarrow> 'r world" where
  "tick d w = w\<lparr>now := now w + d\<rparr>"

text \<open>The provider queries \<^verbatim>\<open>fetch_data\<close> makes, read off a run from a fresh fetcher in
  a fresh world.\<close>

definition queries ::
  "'r env \<Rightarrow> string \<Rightarrow> string \<Rightarrow> string option \<Rightarrow> string option \<Rightarrow> (string \<times> query) list" where
  "queries env ticker interval start_date end_date =
     calls (snd (snd (fetch_data env init world0 ticker interval start_date end_date)))"

text \<open>The outcome of one turn of the batch loop, read off the same way.\<close>

definition outcome ::
  "'r env \<Rightarrow> path \<Rightarrow> string \<Rightarrow> string option \<Rightarrow> string option \<Rightarrow> string \<Rightarrow> error + 'r entry" where
  "outcome env base_dir interval start_date end_date ticker =
     fst (process_one env init world0 base_dir interval start_date end_date ticker)"

text \<open>
  A deterministic stand-in for the collaborators, for the concrete runs below: the
  provider raises for the ticker BAD, has no rows for EMPTY and three rows for any
  other ticker, whatever the query; the file system accepts every write.
\<close>

definition demo_env :: "nat env" where
  "demo_env =
     \<lparr>new_ticker = (\<lambda>t. None),
      history = (\<lambda>t q. if t = ''BAD'' then Inl ''timeout''
                        else if t = ''EMPTY'' then Inr [] else Inr [1, 2, 3]),
      mkdir = (\<lambda>p. None),
      to_csv = (\<lambda>p d. None),
      strptime_msg = (\<lambda>s. ''time data does not match format'')\<rparr>"

section \<open>How a fetch depends on the provider and on nothing else\<close>

lemma strptime_Nil: "strptime [] = None"
  by (simp add: strptime_def)

lemma minute_level_supported:
  "interval \<in> set minute_level \<Longrightarrow> interval \<in> set (map fst supported_intervals)"
  by (auto simp: minute_level_def supported_intervals_def)

lemma supported_period:
  "interval \<in> set (map fst supported_intervals) \<Longrightarrow> \<exists>p. map_of supported_intervals interval = Some p"
  by (cases "map_of supported_intervals interval") (auto simp: map_of_eq_None_iff)

lemma request_history_fst:
  "fst (request_history env w t i sd ed) = fst (request_history env w0 t i sd ed)"
  by (simp add: request_history_def call_history_def Let_def split: option.split)

text \<open>What a request does to the world: it either raises before the provider is asked,
  or asks it once and hands back its answer.\<close>

lemma request_history_char:
  assumes "request_history env w t i sd ed = (r, w')"
  shows "(calls w' = calls w \<and> isl r)
         \<or> (\<exists>q. calls w' = calls w @ [(t, q)] \<and> r = history env t q)"
  using assms
  by (auto simp: request_history_def call_history_def Let_def print_def
           split: option.splits if_splits)

lemma try_fetch_fst_eq:
  "fst (try_fetch env w t i sd ed) =
     (case new_ticker env t of
        Some msg \<Rightarrow> Inl msg
      | None \<Rightarrow>
          (case fst (request_history env w t i sd ed) of
             Inl msg \<Rightarrow> Inl msg
           | Inr data \<Rightarrow> if data = [] then Inr None else Inr (Some data)))"
  by (simp add: try_fetch_def case_prod_beta split: option.split sum.split)

lemma try_fetch_fst:
  "fst (try_fetch env w t i sd ed) = fst (try_fetch env w0 t i sd ed)"
  by (simp add: try_fetch_fst_eq request_history_fst [of env w t i sd ed w0] split: option.split)

lemma try_fetch_char:
  assumes "try_fetch env w t i sd ed = (r, w')"
  shows "(calls w' = calls w \<and> isl r)
         \<or> (\<exists>q. calls w' = calls w @ [(t, q)]
               \<and> r = (case history env t q of
                        Inl msg \<Rightarrow> Inl msg
                      | Inr data \<Rightarrow> if data = [] then Inr None else Inr (Some data)))"
proof (cases "new_ticker env t")
  case (Some msg)
  with assms show ?thesis by (auto simp: try_fetch_def)
next
  case None
  obtain r0 w0 where rh: "request_history env w t i sd ed = (r0, w0)"
    by (cases "request_history env w t i sd ed")
  from request_history_char [OF rh] None rh assms show ?thesis
    by (auto simp: try_fetch_def print_def split: sum.splits if_splits)
qed

lemma rate_limit_calls:
  "rate_limit f w = (f1, w1) \<Longrightarrow> calls w1 = calls w"
  by (auto simp: rate_limit_def sleep_def Let_def split: option.splits if_splits)

lemma fetch_data_fst_eq:
  "fst (fetch_data env f w t i sd ed) =
     (if i \<notin> set (map fst supported_intervals)
      then Inl (ValueError (''Unsupported interval: '' @ i))
      else (case fst (try_fetch env w t i sd ed) of
              Inr r \<Rightarrow> Inr r
            | Inl msg \<Rightarrow> Inr None))"
proof -
  obtain f1 w1 where rl: "rate_limit f w = (f1, w1)"
    by (cases "rate_limit f w")
  obtain r w2 where tf: "try_fetch env w1 t i sd ed = (r, w2)"
    by (cases "try_fetch env w1 t i sd ed")
  from tf have "fst (try_fetch env w t i sd ed) = r"
    using try_fetch_fst [of env w t i sd ed w1] by simp
  with rl tf show ?thesis
    by (simp add: fetch_data_def split: sum.split)
qed

lemma fetch_data_fst:
  "fst (fetch_data env f w t i sd ed) = fst (fetch_data env f0 w0 t i sd ed)"
  by (simp add: fetch_data_fst_eq try_fetch_fst [of env w t i sd ed w0])

lemma fetch_data_supported:
  assumes "i \<in> set (map fst supported_intervals)"
  shows "\<exists>r. fst (fetch_data env f w t i sd ed) = Inr r"
  using assms by (simp add: fetch_data_fst_eq split: sum.split)

lemma fetch_data_unfold:
  assumes "i \<in> set (map fst supported_intervals)"
    and "rate_limit f w = (f1, w1)"
    and "try_fetch env w1 t i sd ed = (r, w2)"
  shows "fetch_data env f w t i sd ed =
           (case r of
              Inr x \<Rightarrow> (Inr x, f1, w2)
            | Inl msg \<Rightarrow>
                (Inr None, f1, print (''Error fetching data for '' @ t @ '': '' @ msg) w2))"
  using assms by (simp add: fetch_data_def split: sum.split)

lemma fetch_data_char:
  assumes sup: "i \<in> set (map fst supported_intervals)"
    and fd: "fetch_data env f w t i sd ed = (res, f', w')"
  shows "(calls w' = calls w \<and> res = Inr None)
         \<or> (\<exists>q. calls w' = calls w @ [(t, q)]
               \<and> res = Inr (case history env t q of
                              Inl msg \<Rightarrow> None
                            | Inr data \<Rightarrow> if data = [] then None else Some data))"
proof -
  obtain f1 w1 where rl: "rate_limit f w = (f1, w1)"
    by (cases "rate_limit f w")
  obtain r w2 where tf: "try_fetch env w1 t i sd ed = (r, w2)"
    by (cases "try_fetch env w1 t i sd ed")
  have c1: "calls w1 = calls w"
    by (rule rate_limit_calls [OF rl])
  have res: "res = (case r of Inr x \<Rightarrow> Inr x | Inl msg \<Rightarrow> Inr None)"
    and c2: "calls w' = calls w2"
    using fd fetch_data_unfold [OF sup rl tf]
    by (auto simp: print_def split: sum.splits)
  from try_fetch_char [OF tf] show ?thesis
  proof
    assume "calls w2 = calls w1 \<and> isl r"
    with res c1 c2 show ?thesis
      by (cases r) auto
  next
    assume "\<exists>q. calls w2 = calls w1 @ [(t, q)]
               \<and> r = (case history env t q of
                        Inl msg \<Rightarrow> Inl msg
                      | Inr data \<Rightarrow> if data = [] then Inr None else Inr (Some data))"
    then obtain q where q: "calls w2 = calls w1 @ [(t, q)]"
      and r: "r = (case history env t q of
                        Inl msg \<Rightarrow> Inl msg
                      | Inr data \<Rightarrow> if data = [] then Inr None else Inr (Some data))"
      by blast
    have "res = Inr (case history env t q of
                              Inl msg \<Rightarrow> None
                            | Inr data \<Rightarrow> if data = [] then None else Some data)"
      unfolding res r by (simp split: sum.split)
    with q c1 c2 show ?thesis by auto
  qed
qed

text \<open>The answer of the provider decides the result, whatever the state of the run.\<close>

lemma queries_decide:
  assumes sup: "i \<in> set (map fst supported_intervals)"
    and q: "queries env t i sd ed = [(t, q)]"
  shows "fst (fetch_data env f w t i sd ed) =
           Inr (case history env t q of
                  Inl msg \<Rightarrow> None
                | Inr data \<Rightarrow> if data = [] then None else Some data)"
proof -
  obtain res f' w' where fd: "fetch_data env init world0 t i sd ed = (res, f', w')"
    by (cases "fetch_data env init world0 t i sd ed")
  have cw: "calls w' = [(t, q)]"
    using q fd by (simp add: queries_def)
  have "calls (world0 :: 'a world) = []"
    by (simp add: world0_def)
  with fetch_data_char [OF sup fd] cw
  have "res = Inr (case history env t q of
                  Inl msg \<Rightarrow> None
                | Inr data \<Rightarrow> if data = [] then None else Some data)"
    by auto
  with fd fetch_data_fst [of env f w t i sd ed init world0] show ?thesis
    by simp
qed

section \<open>The batch loop on a supported interval\<close>

lemma save_data_fst:
  "fst (save_data env w data t base i) = fst (save_data env w0 data t base i)"
  by (simp add: save_data_def Let_def split: option.split)

lemma process_one_fst_eq:
  "fst (process_one env f w base i sd ed t) =
     (case fst (fetch_data env f (print (''Fetching data for '' @ t @ ''...'') w) t i sd ed) of
        Inl e \<Rightarrow> Inl e
      | Inr None \<Rightarrow> Inr (Error ''Failed to fetch data'')
      | Inr (Some data) \<Rightarrow>
          (case fst (save_data env w data t base i) of
             Inr ps \<Rightarrow> Inr (Success ps data)
           | Inl msg \<Rightarrow> Inr (Error (''Error saving data: '' @ msg))))"
proof -
  obtain res f' w' where fd:
    "fetch_data env f (print (''Fetching data for '' @ t @ ''...'') w) t i sd ed = (res, f', w')"
    by (cases "fetch_data env f (print (''Fetching data for '' @ t @ ''...'') w) t i sd ed")
  show ?thesis
  proof (cases res)
    case (Inl e)
    with fd show ?thesis by (simp add: process_one_def)
  next
    case (Inr r)
    show ?thesis
    proof (cases r)
      case None
      with Inr fd show ?thesis by (simp add: process_one_def)
    next
      case (Some data)
      obtain sr w'' where sv: "save_data env w' data t base i = (sr, w'')"
        by (cases "save_data env w' data t base i")
      then have "fst (save_data env w data t base i) = sr"
        using save_data_fst [of env w data t base i w'] by simp
      with Some Inr fd sv show ?thesis
        by (simp add: process_one_def split: sum.split)
    qed
  qed
qed

lemma process_one_fst:
  "fst (process_one env f w base i sd ed t) = outcome env base i sd ed t"
  unfolding outcome_def process_one_fst_eq
  using fetch_data_fst [of env f "print (''Fetching data for '' @ t @ ''...'') w" t i sd ed
          init "print (''Fetching data for '' @ t @ ''...'') world0"]
        save_data_fst [of env w _ t base i world0]
  by (simp split: sum.split option.split)

lemma outcome_supported:
  assumes "i \<in> set (map fst supported_intervals)"
  shows "\<exists>e. outcome env base i sd ed t = Inr e"
  using fetch_data_supported [OF assms, of env init "print (''Fetching data for '' @ t @ ''...'') world0" t sd ed]
  by (auto simp: outcome_def process_one_fst_eq split: sum.split option.split)

lemma outcome_None:
  assumes "fst (fetch_data env f w t i sd ed) = Inr None"
  shows "outcome env base i sd ed t = Inr (Error ''Failed to fetch data'')"
  using assms fetch_data_fst [of env f w t i sd ed
          init "print (''Fetching data for '' @ t @ ''...'') world0"]
  by (simp add: outcome_def process_one_fst_eq)

lemma batch_loop_supported:
  assumes sup: "i \<in> set (map fst supported_intervals)"
  shows "\<exists>res f' w'. batch_loop env base i sd ed ts f w results = (Inr res, f', w')
           \<and> set (map fst res) = set (map fst results) \<union> set ts
           \<and> (\<forall>t. t \<in> set ts \<longrightarrow> map_option Inr (map_of res t) = Some (outcome env base i sd ed t))
           \<and> (\<forall>t. t \<notin> set ts \<longrightarrow> map_of res t = map_of results t)"
proof (induction ts arbitrary: f w results)
  case Nil
  show ?case by simp
next
  case (Cons t ts)
  obtain r f1 w1 where po: "process_one env f w base i sd ed t = (r, f1, w1)"
    by (cases "process_one env f w base i sd ed t")
  from outcome_supported [OF sup] obtain e where e: "outcome env base i sd ed t = Inr e"
    by blast
  with po process_one_fst [of env f w base i sd ed t] have r: "r = Inr e"
    by simp
  from Cons.IH [of f1 w1 "AList.update t e results"]
  obtain res f' w' where
    bl: "batch_loop env base i sd ed ts f1 w1 (AList.update t e results) = (Inr res, f', w')"
    and keys: "set (map fst res) = set (map fst (AList.update t e results)) \<union> set ts"
    and inn: "\<forall>u. u \<in> set ts \<longrightarrow> map_option Inr (map_of res u) = Some (outcome env base i sd ed u)"
    and out: "\<forall>u. u \<notin> set ts \<longrightarrow> map_of res u = map_of (AList.update t e results) u"
    by blast
  have 1: "batch_loop env base i sd ed (t # ts) f w results = (Inr res, f', w')"
    using po r bl by simp
  have 2: "set (map fst res) = set (map fst results) \<union> set (t # ts)"
    using keys by (auto simp: AList.dom_update)
  have 3: "\<forall>u. u \<in> set (t # ts) \<longrightarrow> map_option Inr (map_of res u) = Some (outcome env base i sd ed u)"
  proof (intro allI impI)
    fix u assume u: "u \<in> set (t # ts)"
    show "map_option Inr (map_of res u) = Some (outcome env base i sd ed u)"
    proof (cases "u \<in> set ts")
      case True
      with inn show ?thesis by blast
    next
      case False
      with u have "u = t" by simp
      with False out e show ?thesis
        by (simp add: AList.update_conv')
    qed
  qed
  have 4: "\<forall>u. u \<notin> set (t # ts) \<longrightarrow> map_of res u = map_of results u"
    using out by (simp add: AList.update_conv')
  from 1 2 3 4 show ?case by blast
qed

section \<open>The request a fetch sends\<close>

lemma rate_limit_stdout:
  "rate_limit f w = (f1, w1) \<Longrightarrow> stdout w1 = stdout w"
  by (auto simp: rate_limit_def sleep_def Let_def split: option.splits if_splits)

text \<open>A fetch on a supported interval, once the ticker object exists: the world after
  the request, plus at most the warning or the error line.\<close>

lemma fetch_data_after_request:
  assumes sup: "i \<in> set (map fst supported_intervals)"
    and nt: "new_ticker env t = None"
    and rl: "rate_limit f w = (f1, w1)"
    and rh: "request_history env w1 t i sd ed = (r0, w2)"
  shows "\<exists>w'. fetch_data env f w t i sd ed
           = (Inr (case r0 of
                     Inl msg \<Rightarrow> None
                   | Inr data \<Rightarrow> if data = [] then None else Some data), f1, w')
           \<and> calls w' = calls w2 \<and> (\<exists>rest. stdout w' = stdout w2 @ rest)"
proof (cases r0)
  case (Inl msg)
  with nt rh have "try_fetch env w1 t i sd ed = (Inl msg, w2)"
    by (simp add: try_fetch_def)
  from fetch_data_unfold [OF sup rl this] Inl show ?thesis
    by (simp add: print_def)
next
  case (Inr data)
  show ?thesis
  proof (cases "data = []")
    case True
    with Inr nt rh have "try_fetch env w1 t i sd ed
        = (Inr None, print (''Warning: No data returned for '' @ t) w2)"
      by (simp add: try_fetch_def)
    from fetch_data_unfold [OF sup rl this] Inr True show ?thesis
      by (simp add: print_def)
  next
    case False
    with Inr nt rh have "try_fetch env w1 t i sd ed = (Inr (Some data), w2)"
      by (simp add: try_fetch_def)
    from fetch_data_unfold [OF sup rl this] Inr False show ?thesis
      by simp
  qed
qed

lemma request_reversed:
  assumes "strptime sd = Some s" and "strptime ed = Some e" and "days_between e s < 0"
  shows "request_history env w t i (Some sd) (Some ed) = call_history env w t (Range sd ed i)"
proof -
  from assms(1,2) have "sd \<noteq> []" and "ed \<noteq> []"
    by (auto simp: strptime_Nil)
  with assms show ?thesis
    by (simp add: request_history_def both_dates_def)
qed

lemma request_no_end:
  assumes "end_date = None \<or> end_date = Some []"
    and "map_of supported_intervals i = Some p"
  shows "request_history env w t i start_date end_date = call_history env w t (Period p i)"
  using assms by (auto simp: request_history_def both_dates_def split: option.split)

lemma batch_report:
  assumes sup: "i \<in> set (map fst supported_intervals)"
  shows "\<exists>report f' w'.
           fetch_and_save_multiple env f w ticker_input base i sd ed = (Inr report, f', w')
           \<and> set (map fst report) = set (process_tickers ticker_input)
           \<and> (\<forall>t. t \<in> set (process_tickers ticker_input) \<longrightarrow>
                 map_option Inr (map_of report t) = Some (outcome env base i sd ed t))"
  using batch_loop_supported [OF sup, of env base sd ed "process_tickers ticker_input" f w "[]"]
  unfolding fetch_and_save_multiple_def by auto

lemma entry_of_outcome:
  assumes "map_option Inr (map_of report t) = Some (outcome env base i sd ed t)"
  shows "\<exists>e. map_of report t = Some e
           \<and> (\<forall>f0 w0. fst (process_one env f0 w0 base i sd ed t) = Inr e)"
  using assms by (cases "map_of report t") (auto simp: process_one_fst)

lemma entry_failed:
  assumes "map_option Inr (map_of report t) = Some (outcome env base i sd ed t)"
    and "fst (fetch_data env f w t i sd ed) = Inr None"
  shows "map_of report t = Some (Error ''Failed to fetch data'')"
  using assms(1) outcome_None [OF assms(2), of base]
  by (cases "map_of report t") auto

lemma fetch_data_ticker_fails:
  assumes "i \<in> set (map fst supported_intervals)" and "new_ticker env t = Some msg"
  shows "fst (fetch_data env f w t i sd ed) = Inr None"
  using assms by (simp add: fetch_data_fst_eq try_fetch_fst_eq)

lemma request_malformed:
  assumes "i \<in> set minute_level"
    and "both_dates sd ed = Some (s, e)"
    and "strptime s = None \<or> strptime e = None"
  shows "\<exists>m. request_history env w t i sd ed = (Inl m, w)"
  using assms by (auto simp: request_history_def split: option.split)

section \<open>Concrete runs\<close>

lemma tickers_aapl_msft: "process_tickers ''aapl, msft'' = [''AAPL'', ''MSFT'']"
  by code_simp

lemma d1: "strptime ''2024-01-01'' = Some (Datetime 2024 1 1)" by code_simp
lemma d2: "strptime ''2024-02-01'' = Some (Datetime 2024 2 1)" by code_simp
lemma d3: "days_between (Datetime 2024 2 1) (Datetime 2024 1 1) = 31" by code_simp
lemma d4: "minus_days (Datetime 2024 2 1) 7 = Some (Datetime 2024 1 25)" by code_simp
lemma d5: "strftime (Datetime 2024 1 25) = ''2024-01-25''" by code_simp

lemma demo_fetch_1d:
  "fetch_data demo_env init world0 ''AAPL'' ''1d'' None None
     = (Inr (Some [1, 2, 3]), init\<lparr>last_request_time := Some 0\<rparr>,
        world0\<lparr>calls := [(''AAPL'', Period ''max'' ''1d'')]\<rparr>)"
  by (simp add: fetch_data_def supported_intervals_def rate_limit_def init_def world0_def
        try_fetch_def request_history_def both_dates_def call_history_def demo_env_def)

lemma d10: "strptime ''2024-01-25'' = Some (Datetime 2024 1 25)" by code_simp
lemma d11: "days_between (Datetime 2024 2 1) (Datetime 2024 1 25) = 7" by code_simp
lemma d6: "strptime ''2024-06-01'' = Some (Datetime 2024 6 1)" by code_simp
lemma d7: "days_between (Datetime 2024 6 1) (Datetime 2024 1 1) = 152" by code_simp
lemma d8: "days_between (Datetime 2024 1 1) (Datetime 2024 2 1) = - 31" by code_simp

lemma request_1m_example:
  "request_history env w t ''1m'' (Some ''2024-01-01'') (Some ''2024-02-01'')
     = call_history env
         (print ''Note: Adjusted start date to 2024-01-25 due to 1m interval limitations'' w)
         t (Range ''2024-01-25'' ''2024-02-01'' ''1m'')"
  by (simp add: request_history_def both_dates_def minute_level_def d1 d2 d3 d4 d5)

lemma demo_fetch_1m:
  "fetch_data demo_env init world0 ''AAPL'' ''1m'' (Some ''2024-01-01'') (Some ''2024-02-01'')
     = (Inr (Some [1, 2, 3]), init\<lparr>last_request_time := Some 0\<rparr>,
        world0\<lparr>stdout := [''Note: Adjusted start date to 2024-01-25 due to 1m interval limitations''],
               calls := [(''AAPL'', Range ''2024-01-25'' ''2024-02-01'' ''1m'')]\<rparr>)"
  by (simp add: fetch_data_def supported_intervals_def rate_limit_def init_def world0_def
        try_fetch_def request_1m_example call_history_def demo_env_def print_def)

lemma tickers_aapl_empty: "process_tickers ''aapl, empty'' = [''AAPL'', ''EMPTY'']"
  by code_simp

lemma tickers_aapl_bad: "process_tickers ''aapl, bad'' = [''AAPL'', ''BAD'']"
  by code_simp

lemma demo_queries_1d: "queries demo_env t ''1d'' None None = [(t, Period ''max'' ''1d'')]"
  by (simp add: queries_def fetch_data_def supported_intervals_def rate_limit_def init_def
        world0_def try_fetch_def request_history_def both_dates_def call_history_def
        demo_env_def print_def split: sum.split)

lemma demo_batch_empty:
  "fst (fetch_and_save_multiple demo_env init world0 ''aapl, empty'' [''data''] ''1d'' None None)
     = Inr [(''AAPL'', Success \<lparr>ticker_dir = [''data'', ''AAPL''],
                                data_path = [''data'', ''AAPL'', ''data'', ''AAPL_1d.csv'']\<rparr>
                         [1, 2, 3]),
            (''EMPTY'', Error ''Failed to fetch data'')]"
  by (simp add: fetch_and_save_multiple_def tickers_aapl_empty process_one_def save_data_def
        fetch_data_def supported_intervals_def rate_limit_def init_def sleep_def
        world0_def try_fetch_def request_history_def both_dates_def call_history_def
        demo_env_def print_def Let_def)

lemma tickers_aapl_msft_2: "process_tickers ''aapl,msft'' = [''AAPL'', ''MSFT'']"
  by code_simp


section \<open>The rate limiter\<close>

text \<open>
  Claim C8. Two consecutive acquisitions on one fetcher, with any time \<open>d \<ge> 0\<close> passing
  between them: the second grant is stamped at least the minimum interval after the
  first. When less than the minimum has passed, the second acquisition sleeps once, for
  exactly the remaining time, and the grant falls exactly one minimum interval after the
  first; otherwise it does not sleep and the grant is stamped at once. The clock is the
  model's: rational time, and a sleep that lasts as long as asked.
\<close>

theorem rate_limit_spacing:
  assumes "0 \<le> d"
    and "rate_limit f w = (f1, w1)"
    and "rate_limit f1 (tick d w1) = (f2, w2)"
  shows "\<exists>t1 t2. last_request_time f1 = Some t1 \<and> last_request_time f2 = Some t2
           \<and> t1 + min_request_interval f \<le> t2
           \<and> (if d < min_request_interval f
               then slept w2 = slept w1 @ [min_request_interval f - d]
                    \<and> t2 = t1 + min_request_interval f
               else slept w2 = slept w1 \<and> t2 = t1 + d)"
  using assms
  by (auto simp: rate_limit_def tick_def sleep_def Let_def split: option.splits if_splits)

theorem rate_limit_spacing_witness:
  "last_request_time (fst (rate_limit init (world0 :: nat world))) = Some 0
   \<and> last_request_time
        (fst (rate_limit (fst (rate_limit init (world0 :: nat world)))
               (tick (1 / 5) (snd (rate_limit init world0))))) = Some (1 / 2)
   \<and> slept (snd (rate_limit (fst (rate_limit init (world0 :: nat world)))
               (tick (1 / 5) (snd (rate_limit init world0))))) = [3 / 10]"
  using rate_limit_spacing [of "1 / 5" init "world0 :: nat world"
      "fst (rate_limit init (world0 :: nat world))" "snd (rate_limit init (world0 :: nat world))"
      "fst (rate_limit (fst (rate_limit init (world0 :: nat world)))
               (tick (1 / 5) (snd (rate_limit init world0))))"
      "snd (rate_limit (fst (rate_limit init (world0 :: nat world)))
               (tick (1 / 5) (snd (rate_limit init world0))))"]
  by (simp add: rate_limit_def init_def world0_def tick_def sleep_def)

section \<open>Unsupported intervals\<close>

text \<open>
  Claim C5. For an interval code outside the supported set, \<^verbatim>\<open>fetch_data\<close> raises the
  ValueError naming the interval and leaves the fetcher and the world as they were:
  the rate limiter has not stamped or slept, the provider has not been asked. In a
  batch with at least one ticker the error leaves \<^verbatim>\<open>fetch_and_save_multiple\<close> at the
  first ticker, after the one line announcing it; no report is returned.
\<close>

theorem unsupported_interval_raises:
  assumes "interval \<notin> set (map fst supported_intervals)"
  shows "fetch_data env f w ticker interval sd ed
           = (Inl (ValueError (''Unsupported interval: '' @ interval)), f, w)
         \<and> (\<forall>t ts. process_tickers ticker_input = t # ts \<longrightarrow>
               fetch_and_save_multiple env f w ticker_input base interval sd ed
                 = (Inl (ValueError (''Unsupported interval: '' @ interval)), f,
                    print (''Fetching data for '' @ t @ ''...'') w))"
  using assms
  by (simp add: fetch_data_def fetch_and_save_multiple_def process_one_def)

theorem unsupported_interval_raises_witness:
  "''1x'' \<notin> set (map fst supported_intervals)
   \<and> process_tickers ''aapl, msft'' = [''AAPL'', ''MSFT'']
   \<and> fetch_and_save_multiple demo_env init world0 ''aapl, msft'' [''data''] ''1x'' None None
        = (Inl (ValueError ''Unsupported interval: 1x''), init,
           print ''Fetching data for AAPL...'' world0)"
proof -
  have h: "''1x'' \<notin> set (map fst supported_intervals)"
    by (simp add: supported_intervals_def)
  from unsupported_interval_raises [OF h, of demo_env init world0 "''AAPL''" None None
      "''aapl, msft''" "[''data'']"] h tickers_aapl_msft
  show ?thesis by simp
qed

section \<open>What a fetch returns\<close>

text \<open>
  Claim C9. A call of \<^verbatim>\<open>fetch_data\<close> that returns, returns \<^verbatim>\<open>None\<close> or a frame with at
  least one row: an empty answer of the provider has become \<^verbatim>\<open>None\<close>.
\<close>

theorem fetch_data_never_empty:
  assumes "fetch_data env f w t i sd ed = (Inr r, f', w')"
  shows "r = None \<or> (\<exists>data. r = Some data \<and> data \<noteq> [])"
proof (cases "i \<in> set (map fst supported_intervals)")
  case True
  from fetch_data_char [OF True assms] show ?thesis
  proof
    assume "calls w' = calls w \<and> (Inr r :: error + 'a list option) = Inr None"
    then show ?thesis by simp
  next
    assume "\<exists>q. calls w' = calls w @ [(t, q)]
               \<and> (Inr r :: error + 'a list option)
                     = Inr (case history env t q of
                              Inl msg \<Rightarrow> None
                            | Inr data \<Rightarrow> if data = [] then None else Some data)"
    then obtain q where
      "r = (case history env t q of
              Inl msg \<Rightarrow> None
            | Inr data \<Rightarrow> if data = [] then None else Some data)"
      by auto
    then show ?thesis
      by (cases "history env t q") auto
  qed
next
  case False
  with assms show ?thesis by (simp add: fetch_data_def)
qed

theorem fetch_data_never_empty_witness:
  "fetch_data demo_env init world0 ''AAPL'' ''1d'' None None
     = (Inr (Some [1, 2, 3]), init\<lparr>last_request_time := Some 0\<rparr>,
        world0\<lparr>calls := [(''AAPL'', Period ''max'' ''1d'')]\<rparr>)
   \<and> [1, 2, 3 :: nat] \<noteq> []"
  using fetch_data_never_empty [OF demo_fetch_1d] demo_fetch_1d by simp

section \<open>Clamping the start date\<close>

text \<open>The rule of lines 63 to 71 for the intervals the list names: a span beyond the
  limit moves the start to the end minus the limit; any other range goes out as given.\<close>

lemma listed_interval_clamped:
  assumes ml: "interval \<in> set minute_level"
    and nt: "new_ticker env ticker = None"
    and sd: "strptime sd = Some s"
    and ed: "strptime ed = Some e"
    and far: "days_between e s > (if interval = ''1m'' then 7 else 60)"
    and d: "minus_days e (if interval = ''1m'' then 7 else 60) = Some d"
    and y: "1000 \<le> year d"
  shows "\<exists>res f' w'. fetch_data env f w ticker interval (Some sd) (Some ed) = (res, f', w')
           \<and> calls w' = calls w @ [(ticker, Range (strftime d) ed interval)]"
proof -
  have sup: "interval \<in> set (map fst supported_intervals)"
    by (rule minute_level_supported [OF ml])
  from sd ed have ne: "sd \<noteq> []" "ed \<noteq> []"
    by (auto simp: strptime_Nil)
  obtain f1 w1 where rl: "rate_limit f w = (f1, w1)"
    by (cases "rate_limit f w")
  obtain r0 w2 where rh: "request_history env w1 ticker interval (Some sd) (Some ed) = (r0, w2)"
    by (cases "request_history env w1 ticker interval (Some sd) (Some ed)")
  with ml ne sd ed far d have "calls w2 = calls w1 @ [(ticker, Range (strftime d) ed interval)]"
    by (auto simp: request_history_def both_dates_def call_history_def print_def Let_def
             split: if_splits)
  with fetch_data_after_request [OF sup nt rl rh] rate_limit_calls [OF rl] show ?thesis
    by auto
qed

lemma range_passes_unchanged:
  assumes sup: "interval \<in> set (map fst supported_intervals)"
    and nt: "new_ticker env ticker = None"
    and sd: "strptime sd = Some s"
    and ed: "strptime ed = Some e"
    and near: "interval \<notin> set minute_level
               \<or> days_between e s \<le> (if interval = ''1m'' then 7 else 60)"
  shows "\<exists>res f' w'. fetch_data env f w ticker interval (Some sd) (Some ed) = (res, f', w')
           \<and> calls w' = calls w @ [(ticker, Range sd ed interval)]"
proof -
  from sd ed have ne: "sd \<noteq> []" "ed \<noteq> []"
    by (auto simp: strptime_Nil)
  obtain f1 w1 where rl: "rate_limit f w = (f1, w1)"
    by (cases "rate_limit f w")
  obtain r0 w2 where rh: "request_history env w1 ticker interval (Some sd) (Some ed) = (r0, w2)"
    by (cases "request_history env w1 ticker interval (Some sd) (Some ed)")
  with ne sd ed near have "calls w2 = calls w1 @ [(ticker, Range sd ed interval)]"
    by (auto simp: request_history_def both_dates_def call_history_def Let_def
             split: if_splits)
  with fetch_data_after_request [OF sup nt rl rh] rate_limit_calls [OF rl] show ?thesis
    by auto
qed

text \<open>
  Claim C6, as the code has it. Interval 1m with start 2024-01-01 and end 2024-02-01:
  the span is 31 days, more than the 7 allowed, so the provider is asked for the range
  from 2024-01-25, the end minus 7 days, to 2024-02-01, and the line naming the adjusted
  start date is printed before anything else the call prints. The value returned is
  the provider's answer for that range and nothing more: it carries no mark of the
  clamping. This holds for every ticker whose ticker object can be built, from every
  state of the fetcher and the world.
\<close>

theorem one_minute_example:
  assumes "new_ticker env ticker = None"
    and "fetch_data env f w ticker ''1m'' (Some ''2024-01-01'') (Some ''2024-02-01'') = (res, f', w')"
  shows "strptime ''2024-01-01'' = Some (Datetime 2024 1 1)
         \<and> strptime ''2024-02-01'' = Some (Datetime 2024 2 1)
         \<and> days_between (Datetime 2024 2 1) (Datetime 2024 1 1) = 31
         \<and> map_option strftime (minus_days (Datetime 2024 2 1) 7) = Some ''2024-01-25''
         \<and> calls w' = calls w @ [(ticker, Range ''2024-01-25'' ''2024-02-01'' ''1m'')]
         \<and> (\<exists>rest. stdout w' = stdout w
               @ ''Note: Adjusted start date to 2024-01-25 due to 1m interval limitations'' # rest)
         \<and> res = Inr (case history env ticker (Range ''2024-01-25'' ''2024-02-01'' ''1m'') of
                         Inl msg \<Rightarrow> None
                       | Inr data \<Rightarrow> if data = [] then None else Some data)"
proof -
  have sup: "''1m'' \<in> set (map fst supported_intervals)"
    by (simp add: supported_intervals_def)
  obtain f1 w1 where rl: "rate_limit f w = (f1, w1)"
    by (cases "rate_limit f w")
  obtain r0 w2 where rh:
    "request_history env w1 ticker ''1m'' (Some ''2024-01-01'') (Some ''2024-02-01'') = (r0, w2)"
    by (cases "request_history env w1 ticker ''1m'' (Some ''2024-01-01'') (Some ''2024-02-01'')")
  then have w2: "calls w2 = calls w1 @ [(ticker, Range ''2024-01-25'' ''2024-02-01'' ''1m'')]"
    "stdout w2 = stdout w1
       @ [''Note: Adjusted start date to 2024-01-25 due to 1m interval limitations'']"
    by (auto simp: request_1m_example call_history_def print_def)
  from rh have r0: "r0 = history env ticker (Range ''2024-01-25'' ''2024-02-01'' ''1m'')"
    by (auto simp: request_1m_example call_history_def)
  from fetch_data_after_request [OF sup assms(1) rl rh] assms(2)
  have "calls w' = calls w2" and "\<exists>rest. stdout w' = stdout w2 @ rest"
    and "res = Inr (case r0 of
                      Inl msg \<Rightarrow> None
                    | Inr data \<Rightarrow> if data = [] then None else Some data)"
    by auto
  with w2 r0 rate_limit_calls [OF rl] rate_limit_stdout [OF rl] show ?thesis
    by (auto simp: d1 d2 d3 d4 d5)
qed

theorem one_minute_example_witness:
  "new_ticker demo_env ''AAPL'' = None
   \<and> calls (snd (snd (fetch_data demo_env init world0 ''AAPL'' ''1m''
                        (Some ''2024-01-01'') (Some ''2024-02-01''))))
       = [(''AAPL'', Range ''2024-01-25'' ''2024-02-01'' ''1m'')]
   \<and> stdout (snd (snd (fetch_data demo_env init world0 ''AAPL'' ''1m''
                        (Some ''2024-01-01'') (Some ''2024-02-01''))))
       = [''Note: Adjusted start date to 2024-01-25 due to 1m interval limitations'']"
proof -
  have nt: "new_ticker demo_env ''AAPL'' = None"
    by (simp add: demo_env_def)
  from one_minute_example [OF nt demo_fetch_1m] nt demo_fetch_1m show ?thesis
    by simp
qed

text \<open>The claim as stated fails: the clamped call returns what the call with the start
  2024-01-25 returns, a frame of rows with no flag beside it.\<close>

theorem one_minute_counterexample:
  "fst (fetch_data demo_env init world0 ''AAPL'' ''1m'' (Some ''2024-01-01'') (Some ''2024-02-01''))
     = Inr (Some [1, 2, 3])
   \<and> fst (fetch_data demo_env init world0 ''AAPL'' ''1m'' (Some ''2024-01-25'') (Some ''2024-02-01''))
     = Inr (Some [1, 2, 3])"
proof
  show "fst (fetch_data demo_env init world0 ''AAPL'' ''1m''
               (Some ''2024-01-01'') (Some ''2024-02-01'')) = Inr (Some [1, 2, 3])"
    by (simp add: demo_fetch_1m)
  show "fst (fetch_data demo_env init world0 ''AAPL'' ''1m''
               (Some ''2024-01-25'') (Some ''2024-02-01'')) = Inr (Some [1, 2, 3])"
    by (simp add: fetch_data_def supported_intervals_def rate_limit_def init_def world0_def
          try_fetch_def request_history_def both_dates_def minute_level_def d2 d10 d11
          call_history_def demo_env_def)
qed

text \<open>
  Claim C1. The catalog gives 90m a lookback of 60 days, but the list of line 63 leaves
  90m out: for 90m a span of 152 days is not clamped, and the provider is asked for the
  whole range. The run below shows it.
\<close>

theorem ninety_minutes_not_clamped:
  "map_of supported_intervals ''90m'' = Some ''60d''
   \<and> strptime ''2024-01-01'' = Some (Datetime 2024 1 1)
   \<and> strptime ''2024-06-01'' = Some (Datetime 2024 6 1)
   \<and> days_between (Datetime 2024 6 1) (Datetime 2024 1 1) = 152
   \<and> fetch_data demo_env init world0 ''AAPL'' ''90m'' (Some ''2024-01-01'') (Some ''2024-06-01'')
     = (Inr (Some [1, 2, 3]), init\<lparr>last_request_time := Some 0\<rparr>,
        world0\<lparr>calls := [(''AAPL'', Range ''2024-01-01'' ''2024-06-01'' ''90m'')]\<rparr>)"
  by (simp add: d1 d6 d7 fetch_data_def supported_intervals_def rate_limit_def init_def world0_def
        try_fetch_def request_history_def both_dates_def minute_level_def call_history_def
        demo_env_def)

section \<open>Ranges the code does not check\<close>

text \<open>
  Claim C2, as the code has it. On every supported interval, a range whose end is
  before its start raises nothing: the dates are neither swapped nor adjusted, the
  provider is asked for exactly the range given, and its answer is returned (\<^verbatim>\<open>None\<close>
  when it raises or has no rows).
\<close>

theorem reversed_range_passes:
  assumes sup: "interval \<in> set (map fst supported_intervals)"
    and nt: "new_ticker env ticker = None"
    and sd: "strptime sd = Some s"
    and ed: "strptime ed = Some e"
    and rev: "days_between e s < 0"
  shows "\<exists>f' w'. fetch_data env f w ticker interval (Some sd) (Some ed)
           = (Inr (case history env ticker (Range sd ed interval) of
                     Inl msg \<Rightarrow> None
                   | Inr data \<Rightarrow> if data = [] then None else Some data), f', w')
           \<and> calls w' = calls w @ [(ticker, Range sd ed interval)]"
proof -
  obtain f1 w1 where rl: "rate_limit f w = (f1, w1)"
    by (cases "rate_limit f w")
  have rh: "request_history env w1 ticker interval (Some sd) (Some ed)
      = (history env ticker (Range sd ed interval),
         w1\<lparr>calls := calls w1 @ [(ticker, Range sd ed interval)]\<rparr>)"
    by (simp add: request_reversed [OF sd ed rev] call_history_def)
  from fetch_data_after_request [OF sup nt rl rh] rate_limit_calls [OF rl]
  show ?thesis by auto
qed

theorem reversed_range_passes_witness:
  "''1m'' \<in> set (map fst supported_intervals)
   \<and> new_ticker demo_env ''AAPL'' = None
   \<and> strptime ''2024-02-01'' = Some (Datetime 2024 2 1)
   \<and> strptime ''2024-01-01'' = Some (Datetime 2024 1 1)
   \<and> days_between (Datetime 2024 1 1) (Datetime 2024 2 1) < 0
   \<and> (\<exists>f' w'. fetch_data demo_env init world0 ''AAPL'' ''1m''
                  (Some ''2024-02-01'') (Some ''2024-01-01'') = (Inr (Some [1, 2, 3]), f', w')
         \<and> calls w' = [(''AAPL'', Range ''2024-02-01'' ''2024-01-01'' ''1m'')])"
proof -
  have sup: "''1m'' \<in> set (map fst supported_intervals)"
    by (simp add: supported_intervals_def)
  have nt: "new_ticker demo_env ''AAPL'' = None"
    by (simp add: demo_env_def)
  have rev: "days_between (Datetime 2024 1 1) (Datetime 2024 2 1) < 0"
    by (simp add: d8)
  from reversed_range_passes [OF sup nt d2 d1 rev, of init world0] sup nt rev show ?thesis
    by (simp add: d1 d2 demo_env_def world0_def)
qed

text \<open>The claim as stated fails: with start 2024-02-01 and end 2024-01-01 on interval 1m
  the call returns the provider's rows, and the provider was asked for that range.\<close>

theorem reversed_range_counterexample:
  "fetch_data demo_env init world0 ''AAPL'' ''1m'' (Some ''2024-02-01'') (Some ''2024-01-01'')
     = (Inr (Some [1, 2, 3]), init\<lparr>last_request_time := Some 0\<rparr>,
        world0\<lparr>calls := [(''AAPL'', Range ''2024-02-01'' ''2024-01-01'' ''1m'')]\<rparr>)"
  by (simp add: fetch_data_def supported_intervals_def rate_limit_def init_def world0_def
        try_fetch_def request_reversed [OF d2 d1] d8 call_history_def demo_env_def)

text \<open>
  Claim C3, as the code has it. With a start date and no end date (omitted or empty),
  on a supported interval, \<^verbatim>\<open>fetch_data\<close> puts no end date in its place and ignores the start
  date: the
  provider is asked for the default period of the interval.
\<close>

theorem start_without_end_uses_period:
  assumes sup: "interval \<in> set (map fst supported_intervals)"
    and nt: "new_ticker env ticker = None"
    and ed: "end_date = None \<or> end_date = Some []"
  shows "\<exists>p f' w'. map_of supported_intervals interval = Some p
           \<and> fetch_data env f w ticker interval (Some sd) end_date
               = (Inr (case history env ticker (Period p interval) of
                         Inl msg \<Rightarrow> None
                       | Inr data \<Rightarrow> if data = [] then None else Some data), f', w')
           \<and> calls w' = calls w @ [(ticker, Period p interval)]"
proof -
  from supported_period [OF sup] obtain p where p: "map_of supported_intervals interval = Some p"
    by blast
  obtain f1 w1 where rl: "rate_limit f w = (f1, w1)"
    by (cases "rate_limit f w")
  have rh: "request_history env w1 ticker interval (Some sd) end_date
      = (history env ticker (Period p interval),
         w1\<lparr>calls := calls w1 @ [(ticker, Period p interval)]\<rparr>)"
    by (simp add: request_no_end [OF ed p] call_history_def)
  from fetch_data_after_request [OF sup nt rl rh] rate_limit_calls [OF rl] p
  show ?thesis by auto
qed

theorem start_without_end_uses_period_witness:
  "''1d'' \<in> set (map fst supported_intervals)
   \<and> new_ticker demo_env ''AAPL'' = None
   \<and> (\<exists>f' w'. fetch_data demo_env init world0 ''AAPL'' ''1d'' (Some ''2024-01-01'') None
                 = (Inr (Some [1, 2, 3]), f', w')
         \<and> calls w' = [(''AAPL'', Period ''max'' ''1d'')])"
proof -
  have sup: "''1d'' \<in> set (map fst supported_intervals)"
    by (simp add: supported_intervals_def)
  have nt: "new_ticker demo_env ''AAPL'' = None"
    by (simp add: demo_env_def)
  have p: "map_of supported_intervals ''1d'' = Some ''max''"
    by (simp add: supported_intervals_def)
  from start_without_end_uses_period [OF sup nt, of None init world0 "''2024-01-01''"] sup nt p
  show ?thesis
    by (auto simp: demo_env_def world0_def)
qed

text \<open>The claim as stated fails: with start 2024-01-01 and no end on interval 1d the
  provider is asked for the period max, not for a range ending now.\<close>

theorem start_without_end_counterexample:
  "fetch_data demo_env init world0 ''AAPL'' ''1d'' (Some ''2024-01-01'') None
     = (Inr (Some [1, 2, 3]), init\<lparr>last_request_time := Some 0\<rparr>,
        world0\<lparr>calls := [(''AAPL'', Period ''max'' ''1d'')]\<rparr>)"
  by (simp add: fetch_data_def supported_intervals_def rate_limit_def init_def world0_def
        try_fetch_def request_history_def both_dates_def call_history_def demo_env_def)

section \<open>The batch report\<close>

text \<open>
  Claim C7. On a supported interval the batch runs to its end and returns a report
  whose keys are the tickers of the list. The entry of each ticker is the one its own
  turn of the loop yields from any state of the fetcher and the world, so it depends
  neither on the other tickers nor on their order. A ticker for which the provider
  answers with an empty frame has the entry Error "Failed to fetch data".
\<close>

theorem empty_series_reported:
  assumes sup: "interval \<in> set (map fst supported_intervals)"
  shows "\<exists>report f' w'.
           fetch_and_save_multiple env f w ticker_input base interval sd ed = (Inr report, f', w')
           \<and> set (map fst report) = set (process_tickers ticker_input)
           \<and> (\<forall>t \<in> set (process_tickers ticker_input).
                 (\<exists>e. map_of report t = Some e
                    \<and> (\<forall>f0 w0. fst (process_one env f0 w0 base interval sd ed t) = Inr e))
                 \<and> ((\<exists>q. queries env t interval sd ed = [(t, q)] \<and> history env t q = Inr [])
                      \<longrightarrow> map_of report t = Some (Error ''Failed to fetch data'')))"
proof -
  from batch_report [OF sup] obtain report f' w' where
    run: "fetch_and_save_multiple env f w ticker_input base interval sd ed = (Inr report, f', w')"
    and keys: "set (map fst report) = set (process_tickers ticker_input)"
    and each: "\<forall>t. t \<in> set (process_tickers ticker_input) \<longrightarrow>
                 map_option Inr (map_of report t) = Some (outcome env base interval sd ed t)"
    by blast
  have "(\<exists>e. map_of report t = Some e
            \<and> (\<forall>f0 w0. fst (process_one env f0 w0 base interval sd ed t) = Inr e))
        \<and> ((\<exists>q. queries env t interval sd ed = [(t, q)] \<and> history env t q = Inr [])
              \<longrightarrow> map_of report t = Some (Error ''Failed to fetch data''))"
    if t: "t \<in> set (process_tickers ticker_input)" for t
  proof
    from each t have o: "map_option Inr (map_of report t) = Some (outcome env base interval sd ed t)"
      by blast
    from entry_of_outcome [OF o]
    show "\<exists>e. map_of report t = Some e
            \<and> (\<forall>f0 w0. fst (process_one env f0 w0 base interval sd ed t) = Inr e)" .
    show "(\<exists>q. queries env t interval sd ed = [(t, q)] \<and> history env t q = Inr [])
              \<longrightarrow> map_of report t = Some (Error ''Failed to fetch data'')"
    proof
      assume "\<exists>q. queries env t interval sd ed = [(t, q)] \<and> history env t q = Inr []"
      then obtain q where q: "queries env t interval sd ed = [(t, q)]"
        and h: "history env t q = Inr []"
        by blast
      from queries_decide [OF sup q, of init world0] h
      have "fst (fetch_data env init world0 t interval sd ed) = Inr None"
        by simp
      from entry_failed [OF o this] show "map_of report t = Some (Error ''Failed to fetch data'')" .
    qed
  qed
  with run keys show ?thesis by blast
qed

theorem empty_series_reported_witness:
  "''1d'' \<in> set (map fst supported_intervals)
   \<and> ''EMPTY'' \<in> set (process_tickers ''aapl, empty'')
   \<and> queries demo_env ''EMPTY'' ''1d'' None None = [(''EMPTY'', Period ''max'' ''1d'')]
   \<and> history demo_env ''EMPTY'' (Period ''max'' ''1d'') = Inr []
   \<and> fst (fetch_and_save_multiple demo_env init world0 ''aapl, empty'' [''data''] ''1d'' None None)
        = Inr [(''AAPL'', Success \<lparr>ticker_dir = [''data'', ''AAPL''],
                                   data_path = [''data'', ''AAPL'', ''data'', ''AAPL_1d.csv'']\<rparr>
                            [1, 2, 3]),
               (''EMPTY'', Error ''Failed to fetch data'')]"
proof -
  have sup: "''1d'' \<in> set (map fst supported_intervals)"
    by (simp add: supported_intervals_def)
  have h: "history demo_env ''EMPTY'' (Period ''max'' ''1d'') = Inr []"
    by (simp add: demo_env_def)
  from empty_series_reported [OF sup, of demo_env init world0 "''aapl, empty''" "[''data'']" None None]
    sup h demo_batch_empty
  show ?thesis
    by (simp add: tickers_aapl_empty demo_queries_1d)
qed

text \<open>
  Claim C4, as the code has it. On a supported interval, when building the ticker
  object or asking the provider raises for a ticker of the batch, the exception does
  not leave \<^verbatim>\<open>fetch_data\<close>: the batch runs to its end, every ticker of the list has an
  entry, and the entry of that ticker is Error with the fixed message
  "Failed to fetch data". The provider's message is not in the report.
\<close>

theorem provider_error_reported:
  assumes sup: "interval \<in> set (map fst supported_intervals)"
    and t: "t \<in> set (process_tickers ticker_input)"
    and raises: "new_ticker env t = Some msg
                 \<or> (\<exists>q. queries env t interval sd ed = [(t, q)] \<and> history env t q = Inl msg)"
  shows "\<exists>report f' w'.
           fetch_and_save_multiple env f w ticker_input base interval sd ed = (Inr report, f', w')
           \<and> set (map fst report) = set (process_tickers ticker_input)
           \<and> map_of report t = Some (Error ''Failed to fetch data'')"
proof -
  from batch_report [OF sup] obtain report f' w' where
    run: "fetch_and_save_multiple env f w ticker_input base interval sd ed = (Inr report, f', w')"
    and keys: "set (map fst report) = set (process_tickers ticker_input)"
    and each: "\<forall>t. t \<in> set (process_tickers ticker_input) \<longrightarrow>
                 map_option Inr (map_of report t) = Some (outcome env base interval sd ed t)"
    by blast
  from each t have o: "map_option Inr (map_of report t) = Some (outcome env base interval sd ed t)"
    by blast
  have "fst (fetch_data env init world0 t interval sd ed) = Inr None"
    using raises
  proof
    assume "new_ticker env t = Some msg"
    from fetch_data_ticker_fails [OF sup this] show ?thesis .
  next
    assume "\<exists>q. queries env t interval sd ed = [(t, q)] \<and> history env t q = Inl msg"
    then obtain q where q: "queries env t interval sd ed = [(t, q)]"
      and h: "history env t q = Inl msg"
      by blast
    from queries_decide [OF sup q, of init world0] h show ?thesis
      by simp
  qed
  from entry_failed [OF o this] run keys show ?thesis
    by blast
qed

theorem provider_error_reported_witness:
  "''1d'' \<in> set (map fst supported_intervals)
   \<and> ''BAD'' \<in> set (process_tickers ''aapl, bad'')
   \<and> queries demo_env ''BAD'' ''1d'' None None = [(''BAD'', Period ''max'' ''1d'')]
   \<and> history demo_env ''BAD'' (Period ''max'' ''1d'') = Inl ''timeout''
   \<and> (\<exists>report f' w'.
         fetch_and_save_multiple demo_env init world0 ''aapl, bad'' [''data''] ''1d'' None None
           = (Inr report, f', w')
         \<and> set (map fst report) = {''AAPL'', ''BAD''}
         \<and> map_of report ''BAD'' = Some (Error ''Failed to fetch data''))"
proof -
  have sup: "''1d'' \<in> set (map fst supported_intervals)"
    by (simp add: supported_intervals_def)
  have t: "''BAD'' \<in> set (process_tickers ''aapl, bad'')"
    by (simp add: tickers_aapl_bad)
  have h: "history demo_env ''BAD'' (Period ''max'' ''1d'') = Inl ''timeout''"
    by (simp add: demo_env_def)
  have r: "new_ticker demo_env ''BAD'' = Some ''timeout''
           \<or> (\<exists>q. queries demo_env ''BAD'' ''1d'' None None = [(''BAD'', q)]
                  \<and> history demo_env ''BAD'' q = Inl ''timeout'')"
    using h by (simp add: demo_queries_1d)
  from provider_error_reported [OF sup t r, of init world0 "[''data'']"] sup t h
  show ?thesis
    by (simp add: tickers_aapl_bad demo_queries_1d)
qed

text \<open>The claim as stated fails: the provider raises "timeout" for BAD, and the entry of
  BAD carries the message "Failed to fetch data".\<close>

theorem provider_error_counterexample:
  "fst (fetch_and_save_multiple demo_env init world0 ''aapl, bad'' [''data''] ''1d'' None None)
     = Inr [(''AAPL'', Success \<lparr>ticker_dir = [''data'', ''AAPL''],
                                data_path = [''data'', ''AAPL'', ''data'', ''AAPL_1d.csv'']\<rparr>
                         [1, 2, 3]),
            (''BAD'', Error ''Failed to fetch data'')]
   \<and> history demo_env ''BAD'' (Period ''max'' ''1d'') = Inl ''timeout''
   \<and> (Error ''Failed to fetch data'' :: nat entry) \<noteq> Error ''timeout''"
  by (simp add: fetch_and_save_multiple_def tickers_aapl_bad process_one_def save_data_def
        fetch_data_def supported_intervals_def rate_limit_def init_def sleep_def
        world0_def try_fetch_def request_history_def both_dates_def call_history_def
        demo_env_def print_def Let_def)

section \<open>Malformed dates\<close>

text \<open>
  On an interval of the list of line 63, with both dates given, a date that \<^verbatim>\<open>strptime\<close>
  rejects makes \<^verbatim>\<open>fetch_data\<close> return \<^verbatim>\<open>None\<close> without raising and without asking the
  provider; a batch then runs to its end with the entry Error "Failed to fetch data"
  for every ticker.
\<close>

lemma listed_interval_malformed_date:
  assumes ml: "interval \<in> set minute_level"
    and both: "both_dates sd ed = Some (s, e)"
    and bad: "strptime s = None \<or> strptime e = None"
  shows "(\<exists>f' w'. fetch_data env f w t interval sd ed = (Inr None, f', w')
            \<and> calls w' = calls w)
         \<and> (\<exists>report f' w'.
               fetch_and_save_multiple env f w ticker_input base interval sd ed
                 = (Inr report, f', w')
               \<and> set (map fst report) = set (process_tickers ticker_input)
               \<and> (\<forall>u \<in> set (process_tickers ticker_input).
                     map_of report u = Some (Error ''Failed to fetch data'')))"
proof
  have sup: "interval \<in> set (map fst supported_intervals)"
    by (rule minute_level_supported [OF ml])
  have none: "\<exists>f' w'. fetch_data env f w t interval sd ed = (Inr None, f', w')
            \<and> calls w' = calls w" for f w t
  proof -
    obtain f1 w1 where rl: "rate_limit f w = (f1, w1)"
      by (cases "rate_limit f w")
    from request_malformed [OF ml both bad] obtain m where
      rh: "request_history env w1 t interval sd ed = (Inl m, w1)"
      by blast
    have "\<exists>m'. try_fetch env w1 t interval sd ed = (Inl m', w1)"
      using rh by (cases "new_ticker env t") (auto simp: try_fetch_def)
    then obtain m' where tf: "try_fetch env w1 t interval sd ed = (Inl m', w1)"
      by blast
    from fetch_data_unfold [OF sup rl tf] rate_limit_calls [OF rl] show ?thesis
      by (simp add: print_def)
  qed
  from none show "\<exists>f' w'. fetch_data env f w t interval sd ed = (Inr None, f', w')
            \<and> calls w' = calls w" .
  from batch_report [OF sup] obtain report f' w' where
    run: "fetch_and_save_multiple env f w ticker_input base interval sd ed = (Inr report, f', w')"
    and keys: "set (map fst report) = set (process_tickers ticker_input)"
    and each: "\<forall>t. t \<in> set (process_tickers ticker_input) \<longrightarrow>
                 map_option Inr (map_of report t) = Some (outcome env base interval sd ed t)"
    by blast
  have "map_of report u = Some (Error ''Failed to fetch data'')"
    if u: "u \<in> set (process_tickers ticker_input)" for u
  proof -
    from each u have o: "map_option Inr (map_of report u) = Some (outcome env base interval sd ed u)"
      by blast
    from none [of init world0 u] have "fst (fetch_data env init world0 u interval sd ed) = Inr None"
      by auto
    from entry_failed [OF o this] show ?thesis .
  qed
  with run keys show "\<exists>report f' w'.
               fetch_and_save_multiple env f w ticker_input base interval sd ed
                 = (Inr report, f', w')
               \<and> set (map fst report) = set (process_tickers ticker_input)
               \<and> (\<forall>u \<in> set (process_tickers ticker_input).
                     map_of report u = Some (Error ''Failed to fetch data''))"
    by blast
qed


end
